theory Spec2Isabelle
  imports Complex_Main "HOL-Library.Word"
begin

unbundle bit_operations_syntax

section \<open>SSFD: seven-segment four-digit display driver (SSFD.h, SSFD.cpp)\<close>

text \<open>
  A shallow embedding of the class \<open>SevenSegment\<close>. The object and the part of the
  ATmega328P it touches (program memory, the Timer1 registers, the global interrupt flag,
  and a record of what the code does to the outside) are one record that every member
  function takes and returns.
  \<open>uint8_t\<close> is \<open>8 word\<close>, \<open>uint16_t\<close> and \<open>unsigned int\<close> are \<open>16 word\<close>,
  \<open>unsigned long\<close> is \<open>32 word\<close>, \<open>int8_t\<close> is an \<open>8 word\<close> read with \<open>sint\<close>.
\<close>

type_synonym u8 = "8 word"
type_synonym i8 = "8 word"
type_synonym u16 = "16 word"
type_synonym u32 = "32 word"

subsection \<open>Constants of the class\<close>

definition NUM_DIGITS :: nat where "NUM_DIGITS = 4"
definition NUM_SEGMENTS :: nat where "NUM_SEGMENTS = 8"
definition MAX_PIN :: u8 where "MAX_PIN = 53"
definition MAX_VALUE :: u16 where "MAX_VALUE = 9999"

datatype Error = OK | NULL_POINTER | INVALID_PIN | TIMER_INIT_FAILED | NOT_INITIALIZED
  | INVALID_ARGUMENT

subsection \<open>The segment pattern table\<close>

text \<open>Bit layout: 7=a, 6=b, 5=c, 4=d, 3=e, 2=f, 1=g, 0=dp. Indices as in the source.\<close>

definition SEGMENT_PATTERNS :: "u8 list" where
  "SEGMENT_PATTERNS = [
     0b11111100, 0b01100000, 0b11011010, 0b11110010, 0b01100110,
     0b10110110, 0b10111110, 0b11100000, 0b11111110, 0b11110110,
     0b00000000, 0b00000001,
     0b11101110, 0b00111110, 0b10011100, 0b01111010, 0b10011110,
     0b10001110, 0b10111100, 0b01101110, 0b01100000, 0b01111000,
     0b00001110, 0b00011100, 0b10101000, 0b00101010, 0b11111100,
     0b11001110, 0b11110110, 0b00001010, 0b10110110, 0b00011110,
     0b01111100, 0b01110000, 0b01010100, 0b01001110, 0b01110110,
     0b11011010,
     0b00000000, 0b00000010, 0b11000000]"

subsection \<open>The machine and the object\<close>

text \<open>
  What the code does to the outside is recorded in program order: the calls into the
  Arduino core, \<open>pinMode(pin, OUTPUT)\<close>, \<open>digitalWrite(pin, level)\<close> and \<open>delay(ms)\<close>,
  and the accesses that matter to the interrupt handler, \<open>cli()\<close>, \<open>sei()\<close> and each
  store into \<open>_displayPatterns\<close>.
\<close>

datatype event = PinModeOutput u8 | DigitalWrite u8 bool | Delay u16
  | InterruptsOff | InterruptsOn | StorePattern nat u8

text \<open>
  Program memory is a map from addresses to bytes; a \<open>PROGMEM\<close> pointer is an address and
  \<open>nullptr\<close> is address 0. \<open>irq_enabled\<close> is the global interrupt flag that \<open>cli()\<close>
  clears and \<open>sei()\<close> sets.
\<close>

record avr_hw =
  flash :: "nat \<Rightarrow> u8"
  TCCR1A :: u8
  TCCR1B :: u8
  TCNT1 :: u16
  OCR1A :: u16
  TIMSK1 :: u8
  irq_enabled :: bool
  events :: "event list"

record SevenSegment = avr_hw +
  isrActive :: bool
  segmentPins :: nat
  digitPins :: nat
  displayPatterns :: "u8 list"
  leadingZeros :: bool
  currentDigit :: u8
  refreshIntervalMs :: u8
  lastRefreshTime :: u32
  blinkEnabled :: bool
  blinkStateOn :: bool
  blinkInterval :: u32
  blinkLastToggle :: u32
  lastError :: Error

text \<open>Bit numbers of the Timer1 registers, from the ATmega328P register map.\<close>

definition WGM12 :: nat where "WGM12 = 3"
definition CS11 :: nat where "CS11 = 1"
definition CS10 :: nat where "CS10 = 0"
definition OCIE1A :: nat where "OCIE1A = 1"

definition cli :: "SevenSegment \<Rightarrow> SevenSegment" where
  "cli s = s\<lparr>irq_enabled := False, events := events s @ [InterruptsOff]\<rparr>"

definition sei :: "SevenSegment \<Rightarrow> SevenSegment" where
  "sei s = s\<lparr>irq_enabled := True, events := events s @ [InterruptsOn]\<rparr>"

text \<open>The assignment \<open>_displayPatterns[i] = pattern\<close>.\<close>

definition store_pattern :: "nat \<Rightarrow> u8 \<Rightarrow> SevenSegment \<Rightarrow> SevenSegment" where
  "store_pattern i pattern s =
     s\<lparr>displayPatterns := (displayPatterns s)[i := pattern],
       events := events s @ [StorePattern i pattern]\<rparr>"

definition pgm_read_byte :: "SevenSegment \<Rightarrow> nat \<Rightarrow> u8" where
  "pgm_read_byte s a = flash s a"

definition pinMode_OUTPUT :: "u8 \<Rightarrow> SevenSegment \<Rightarrow> SevenSegment" where
  "pinMode_OUTPUT pin s = s\<lparr>events := events s @ [PinModeOutput pin]\<rparr>"

definition digitalWrite :: "u8 \<Rightarrow> bool \<Rightarrow> SevenSegment \<Rightarrow> SevenSegment" where
  "digitalWrite pin level s = s\<lparr>events := events s @ [DigitalWrite pin level]\<rparr>"

definition delay :: "u16 \<Rightarrow> SevenSegment \<Rightarrow> SevenSegment" where
  "delay ms s = s\<lparr>events := events s @ [Delay ms]\<rparr>"

text \<open>
  The constructor: the member initialiser list, then \<open>memset\<close> of the four patterns.
  The object is built on the machine state \<open>hw\<close> it runs on.
\<close>

definition SevenSegment_new :: "avr_hw \<Rightarrow> nat \<Rightarrow> nat \<Rightarrow> SevenSegment" where
  "SevenSegment_new hw segs digs =
     \<lparr> flash = flash hw, TCCR1A = TCCR1A hw, TCCR1B = TCCR1B hw, TCNT1 = TCNT1 hw,
       OCR1A = OCR1A hw, TIMSK1 = TIMSK1 hw, irq_enabled = irq_enabled hw,
       events = events hw,
       isrActive = False,
       segmentPins = segs,
       digitPins = digs,
       displayPatterns = replicate NUM_DIGITS 0,
       leadingZeros = True,
       currentDigit = 0,
       refreshIntervalMs = 3,
       lastRefreshTime = 0,
       blinkEnabled = False,
       blinkStateOn = True,
       blinkInterval = 500,
       blinkLastToggle = 0,
       lastError = OK \<rparr>"

definition isPinValid :: "u8 \<Rightarrow> bool" where
  "isPinValid pin = (pin \<le> MAX_PIN)"

definition isInitialized :: "SevenSegment \<Rightarrow> bool" where
  "isInitialized s = isrActive s"

definition getLastError :: "SevenSegment \<Rightarrow> Error" where
  "getLastError s = lastError s"

definition isBlinking :: "SevenSegment \<Rightarrow> bool" where
  "isBlinking s = blinkEnabled s"

subsection \<open>begin, end\<close>

definition init_pin :: "nat \<Rightarrow> SevenSegment \<Rightarrow> nat \<Rightarrow> SevenSegment" where
  "init_pin base s i =
     (let pin = pgm_read_byte s (base + i)
      in digitalWrite pin False (pinMode_OUTPUT pin s))"

definition SevenSegment_begin :: "SevenSegment \<Rightarrow> Error \<times> SevenSegment" where
  "SevenSegment_begin s =
     (if segmentPins s = 0 \<or> digitPins s = 0
      then (NULL_POINTER, s\<lparr>lastError := NULL_POINTER\<rparr>)
      else if \<not> list_all (\<lambda>i. isPinValid (pgm_read_byte s (segmentPins s + i)))
                   [0..<NUM_SEGMENTS]
      then (INVALID_PIN, s\<lparr>lastError := INVALID_PIN\<rparr>)
      else if \<not> list_all (\<lambda>i. isPinValid (pgm_read_byte s (digitPins s + i)))
                   [0..<NUM_DIGITS]
      then (INVALID_PIN, s\<lparr>lastError := INVALID_PIN\<rparr>)
      else
        let s1 = foldl (init_pin (segmentPins s)) s [0..<NUM_SEGMENTS];
            s2 = foldl (init_pin (digitPins s)) s1 [0..<NUM_DIGITS];
            s3 = cli s2;
            s4 = s3\<lparr>TCCR1A := 0\<rparr>;
            s5 = s4\<lparr>TCCR1B := 0\<rparr>;
            s6 = s5\<lparr>TCNT1 := 0\<rparr>;
            s7 = s6\<lparr>OCR1A := 499\<rparr>;
            s8 = s7\<lparr>TCCR1B := TCCR1B s7 OR (push_bit WGM12 1 OR push_bit CS11 1
                                             OR push_bit CS10 1)\<rparr>;
            s9 = s8\<lparr>TIMSK1 := TIMSK1 s8 OR push_bit OCIE1A 1\<rparr>;
            s10 = s9\<lparr>isrActive := True\<rparr>;
            s11 = sei s10;
            s12 = s11\<lparr>lastError := OK\<rparr>
        in (OK, s12))"

definition clear :: "SevenSegment \<Rightarrow> SevenSegment" where
  "clear s =
     (let blankPattern = SEGMENT_PATTERNS ! 10;
          s1 = cli s;
          s2 = foldl (\<lambda>t i. store_pattern i blankPattern t) s1 [0..<NUM_DIGITS]
      in sei s2)"

definition SevenSegment_end :: "SevenSegment \<Rightarrow> SevenSegment" where
  "SevenSegment_end s =
     (let s1 = cli s;
          s2 = s1\<lparr>isrActive := False\<rparr>;
          s3 = s2\<lparr>TIMSK1 := TIMSK1 s2 AND NOT (push_bit OCIE1A 1)\<rparr>;
          s4 = sei s3
      in clear s4)"

subsection \<open>refresh, multiplex and the interrupt handler\<close>

text \<open>\<open>millis()\<close> is read once; its value is the argument \<open>now\<close>.\<close>

definition refresh :: "SevenSegment \<Rightarrow> u32 \<Rightarrow> SevenSegment" where
  "refresh s now =
     (if blinkEnabled s
      then (if now - blinkLastToggle s \<ge> blinkInterval s
            then s\<lparr>blinkStateOn := \<not> blinkStateOn s, blinkLastToggle := now\<rparr>
            else s)
      else s)"

definition drive_segment :: "u8 \<Rightarrow> SevenSegment \<Rightarrow> nat \<Rightarrow> SevenSegment" where
  "drive_segment pattern s b =
     (let pin = pgm_read_byte s (segmentPins s + b)
      in if pattern AND push_bit (7 - b) 1 \<noteq> 0
         then digitalWrite pin True s
         else digitalWrite pin False s)"

definition multiplex :: "SevenSegment \<Rightarrow> SevenSegment" where
  "multiplex s =
     (let prevDigit = currentDigit s;
          s1 = digitalWrite (pgm_read_byte s (digitPins s + unat prevDigit)) False s;
          s2 = s1\<lparr>currentDigit := of_nat ((unat (currentDigit s1) + 1) mod NUM_DIGITS)\<rparr>
      in if blinkEnabled s2 \<and> \<not> blinkStateOn s2
         then s2
         else
           let pattern = displayPatterns s2 ! unat (currentDigit s2);
               s3 = foldl (drive_segment pattern) s2 [0..<NUM_SEGMENTS]
           in digitalWrite (pgm_read_byte s3 (digitPins s3 + unat (currentDigit s3))) True s3)"

text \<open>
  \<open>ISR(TIMER1_COMPA_vect)\<close>; the static instance pointer is set by the constructor, so
  it is never null once an object exists.
\<close>

definition TIMER1_COMPA_vect :: "SevenSegment \<Rightarrow> SevenSegment" where
  "TIMER1_COMPA_vect s = (if isrActive s then multiplex s else s)"

subsection \<open>testWiring\<close>

definition test_segment :: "u16 \<Rightarrow> SevenSegment \<Rightarrow> nat \<Rightarrow> SevenSegment" where
  "test_segment delayMs s i =
     (let s1 = digitalWrite (pgm_read_byte s (segmentPins s + i)) True s;
          s2 = sei s1;
          s3 = delay delayMs s2;
          s4 = cli s3
      in digitalWrite (pgm_read_byte s4 (segmentPins s4 + i)) False s4)"

definition testWiring :: "SevenSegment \<Rightarrow> u16 \<Rightarrow> SevenSegment" where
  "testWiring s delayMs =
     (if \<not> isrActive s then s
      else
        let s1 = cli s;
            s2 = s1\<lparr>TIMSK1 := TIMSK1 s1 AND NOT (push_bit OCIE1A 1)\<rparr>;
            s3 = foldl (\<lambda>t d. digitalWrite (pgm_read_byte t (digitPins t + d)) True t)
                   s2 [0..<NUM_DIGITS];
            s4 = foldl (test_segment delayMs) s3 [0..<NUM_SEGMENTS];
            s5 = foldl (\<lambda>t d. digitalWrite (pgm_read_byte t (digitPins t + d)) False t)
                   s4 [0..<NUM_DIGITS];
            s6 = s5\<lparr>TIMSK1 := TIMSK1 s5 OR push_bit OCIE1A 1\<rparr>
        in sei s6)"

subsection \<open>setNumber\<close>

text \<open>
  The digit extraction loop runs \<open>i\<close> from \<open>NUM_DIGITS - 1\<close> down to 0; the argument of
  \<open>extract_loop\<close> is \<open>i + 1\<close>. The local array is uninitialised in the source and every
  entry is written.
\<close>

fun extract_loop :: "nat \<Rightarrow> u16 \<Rightarrow> u8 list \<Rightarrow> u8 list" where
  "extract_loop 0 temp digits = digits"
| "extract_loop (Suc i) temp digits =
     extract_loop i (temp div 10) (digits[i := ucast (temp mod 10)])"

definition setNumber_step ::
  "u8 list \<Rightarrow> i8 \<Rightarrow> SevenSegment \<times> bool \<Rightarrow> nat \<Rightarrow> SevenSegment \<times> bool" where
  "setNumber_step digits dpPosition st i =
     (let s = fst st;
          isLeading = snd st;
          digit = digits ! i;
          pattern = SEGMENT_PATTERNS ! unat digit;
          blanked = (\<not> leadingZeros s \<and> digit = 0 \<and> isLeading \<and> i < NUM_DIGITS - 1);
          pattern1 = (if blanked then SEGMENT_PATTERNS ! 10 else pattern);
          isLeading1 = (if blanked then isLeading
                        else if digit \<noteq> 0 \<or> \<not> isLeading \<or> i = NUM_DIGITS - 1 then False
                        else isLeading);
          pattern2 = (if int i = sint dpPosition \<and> sint dpPosition \<ge> 0
                      then pattern1 OR SEGMENT_PATTERNS ! 11 else pattern1)
      in (store_pattern i pattern2 s, isLeading1))"

definition setNumber :: "SevenSegment \<Rightarrow> u16 \<Rightarrow> i8 \<Rightarrow> SevenSegment" where
  "setNumber s value0 dpPosition0 =
     (let value = (if value0 > MAX_VALUE then MAX_VALUE else value0);
          dpPosition = (if sint dpPosition0 < - 1 \<or> sint dpPosition0 > 3
                        then - 1 else dpPosition0);
          digits = extract_loop NUM_DIGITS value (replicate NUM_DIGITS 0);
          s1 = cli s;
          s2 = fst (foldl (setNumber_step digits dpPosition) (s1, True) [0..<NUM_DIGITS])
      in sei s2)"

definition setLeadingZeros :: "SevenSegment \<Rightarrow> bool \<Rightarrow> SevenSegment" where
  "setLeadingZeros s enabled = s\<lparr>leadingZeros := enabled\<rparr>"

definition setHundredths :: "SevenSegment \<Rightarrow> u16 \<Rightarrow> i8 \<Rightarrow> SevenSegment" where
  "setHundredths s hundredths0 dpPosition0 =
     (let hundredths = (if hundredths0 > 9999 then 9999 else hundredths0);
          dpPosition = (if sint dpPosition0 < - 1 \<or> sint dpPosition0 > 3
                        then 2 else dpPosition0)
      in setNumber s hundredths dpPosition)"

subsection \<open>getPattern\<close>

text \<open>
  The comparisons are on the character code. A byte above 127 falls through every range
  whether \<open>char\<close> is signed or not, so the code is read as unsigned. The index never
  exceeds 40, so its \<open>uint8_t\<close> does not wrap.
\<close>

definition getPattern :: "char \<Rightarrow> u8" where
  "getPattern c =
     (let code = (of_char c :: nat);
          index =
            (if of_char (CHR ''0'') \<le> code \<and> code \<le> of_char (CHR ''9'')
               then code - of_char (CHR ''0'')
             else if of_char (CHR ''A'') \<le> code \<and> code \<le> of_char (CHR ''Z'')
               then 12 + (code - of_char (CHR ''A''))
             else if of_char (CHR ''a'') \<le> code \<and> code \<le> of_char (CHR ''z'')
               then 12 + (code - of_char (CHR ''a''))
             else if c = CHR '' '' then 38
             else if c = CHR ''-'' then 39
             else if c = CHR ''='' then 40
             else if c = CHR ''.'' then 11
             else 10);
          index1 = (if index \<ge> length SEGMENT_PATTERNS then 10 else index)
      in SEGMENT_PATTERNS ! index1)"

subsection \<open>setText, setSegments\<close>

text \<open>
  A \<open>const char *\<close> is \<open>None\<close> for \<open>nullptr\<close>, else the bytes it points to; the C string
  ends at the first NUL byte (or at the end of the list). \<open>strlen\<close> returns a
  \<open>size_t\<close>, which the source stores in a \<open>uint8_t\<close>.
\<close>

definition strlen :: "string \<Rightarrow> nat" where
  "strlen text = length (takeWhile (\<lambda>c. c \<noteq> CHR 0x00) text)"

definition strncpy :: "string \<Rightarrow> string \<Rightarrow> nat \<Rightarrow> string" where
  "strncpy dest src n =
     (let body = takeWhile (\<lambda>c. c \<noteq> CHR 0x00) src;
          k = min n (length body)
      in take k body @ replicate (n - k) (CHR 0x00) @ drop n dest)"

definition setText :: "SevenSegment \<Rightarrow> string option \<Rightarrow> Error \<times> SevenSegment" where
  "setText s text0 =
     (case text0 of
        None \<Rightarrow> (NULL_POINTER, s)
      | Some text \<Rightarrow>
          let len = (of_nat (strlen text) :: u8)
          in if unat len > NUM_DIGITS then (INVALID_ARGUMENT, s)
             else
               let padded = strncpy [CHR '' '', CHR '' '', CHR '' '', CHR '' '', CHR 0x00]
                              text (unat len);
                   s1 = cli s;
                   s2 = foldl (\<lambda>t i. store_pattern i (getPattern (padded ! i)) t)
                          s1 [0..<NUM_DIGITS]
               in (OK, sei s2))"

text \<open>The argument of \<open>setSegments\<close> is \<open>None\<close> for \<open>nullptr\<close>, else the bytes at the pointer.\<close>

definition setSegments :: "SevenSegment \<Rightarrow> (nat \<Rightarrow> u8) option \<Rightarrow> SevenSegment" where
  "setSegments s patterns0 =
     (case patterns0 of
        None \<Rightarrow> s
      | Some patterns \<Rightarrow>
          let s1 = cli s;
              s2 = foldl (\<lambda>t i. store_pattern i (patterns i) t) s1 [0..<NUM_DIGITS]
          in sei s2)"

subsection \<open>setFloat\<close>

text \<open>
  A \<open>float\<close> is not-a-number, an infinity, or a finite value, which is a rational number.
  What the source leaves to the platform is a parameter: the rounding of an arithmetic
  result to the \<open>float\<close> and to the \<open>double\<close> format, the value \<open>pow(10, n)\<close> returns, and
  the result of a conversion to an integer type that cannot hold the value (undefined in
  C). \<open>int\<close> has 16 bits on the ATmega328P.
\<close>

datatype cfloat = NaN | PosInf | NegInf | Finite rat

record float_env =
  round_float :: "rat \<Rightarrow> rat"
  round_double :: "rat \<Rightarrow> rat"
  pow10 :: "nat \<Rightarrow> rat"
  undef_uint16 :: "rat \<Rightarrow> u16"
  undef_int :: "rat \<Rightarrow> int"

definition truncate :: "rat \<Rightarrow> int" where
  "truncate x = (if 0 \<le> x then \<lfloor>x\<rfloor> else \<lceil>x\<rceil>)"

text \<open>\<open>roundf\<close> and \<open>round\<close>: to the nearest integer, halfway cases away from zero.\<close>

definition c_round :: "rat \<Rightarrow> rat" where
  "c_round x = (if 0 \<le> x then of_int \<lfloor>x + 1 / 2\<rfloor> else - of_int \<lfloor>- x + 1 / 2\<rfloor>)"

definition to_uint16 :: "float_env \<Rightarrow> rat \<Rightarrow> u16" where
  "to_uint16 env x =
     (if - 1 < x \<and> x < 65536 then word_of_int (truncate x) else undef_uint16 env x)"

definition to_int :: "float_env \<Rightarrow> rat \<Rightarrow> int" where
  "to_int env x =
     (if - 32769 < x \<and> x < 32768 then truncate x else undef_int env x)"

definition setFloat_invalid :: "SevenSegment \<Rightarrow> Error \<times> SevenSegment" where
  "setFloat_invalid s =
     (let s1 = snd (setText s (Some ''Err ''))
      in (INVALID_ARGUMENT, s1\<lparr>lastError := INVALID_ARGUMENT\<rparr>))"

fun setFloat :: "float_env \<Rightarrow> SevenSegment \<Rightarrow> cfloat \<Rightarrow> Error \<times> SevenSegment" where
  "setFloat env s NaN = setFloat_invalid s"
| "setFloat env s PosInf = setFloat_invalid s"
| "setFloat env s NegInf = setFloat_invalid s"
| "setFloat env s (Finite x) =
     (if x < 0 then
        (let s1 =
           (if x \<le> - 100 then snd (setText s (Some ''-999''))
            else
              let numToDisplay =
                    (if x > - 10
                     then to_uint16 env (c_round (round_float env (\<bar>x\<bar> * 100)))
                     else to_uint16 env (c_round (round_float env (\<bar>x\<bar> * 10))));
                  dpPosition = (if x > - 10 then 1 else 2 :: i8);
                  t1 = setNumber s numToDisplay dpPosition;
                  t2 = cli t1;
                  t3 = store_pattern 0 (getPattern (CHR ''-'')) t2
              in sei t3)
         in (OK, s1\<lparr>lastError := OK\<rparr>))
      else
        (let intPart = to_int env x;
             numIntDigits = (if intPart \<ge> 1000 then 4
                             else if intPart \<ge> 100 then 3
                             else if intPart \<ge> 10 then 2
                             else 1 :: int);
             numDecimals0 = 4 - numIntDigits;
             numDecimals = (if numDecimals0 < 0 then 0 else numDecimals0);
             dpPosition0 = numIntDigits - 1;
             dpPosition = (if dpPosition0 = 3 then - 1 else dpPosition0);
             multiplier = pow10 env (nat numDecimals);
             numToDisplay0 = to_uint16 env (c_round (round_double env (x * multiplier)));
             numToDisplay = (if numToDisplay0 > 9999 then 9999 else numToDisplay0);
             s1 = setNumber s numToDisplay (word_of_int dpPosition)
         in (OK, s1\<lparr>lastError := OK\<rparr>)))"

subsection \<open>Display modes and blinking\<close>

definition setRefreshInterval :: "SevenSegment \<Rightarrow> u8 \<Rightarrow> SevenSegment" where
  "setRefreshInterval s ms0 =
     (let ms1 = (if ms0 < 1 then 1 else ms0);
          ms2 = (if unat ms1 > 255 then 255 else ms1)
      in s\<lparr>refreshIntervalMs := ms2\<rparr>)"

definition startBlink :: "SevenSegment \<Rightarrow> u32 \<Rightarrow> u32 \<Rightarrow> SevenSegment" where
  "startBlink s intervalMs now =
     s\<lparr>blinkInterval := intervalMs, blinkEnabled := True, blinkStateOn := True,
       blinkLastToggle := now\<rparr>"

definition stopBlink :: "SevenSegment \<Rightarrow> SevenSegment" where
  "stopBlink s = s\<lparr>blinkEnabled := False, blinkStateOn := True\<rparr>"

section \<open>Vocabulary of the specification\<close>

text \<open>
  The display state is well formed when it holds exactly \<open>NUM_DIGITS\<close> patterns, as the
  array type of the source guarantees.
\<close>

definition wf :: "SevenSegment \<Rightarrow> bool" where
  "wf s = (length (displayPatterns s) = NUM_DIGITS)"

text \<open>
  A segment pattern splits into its glyph (segments a to g, bits 7 to 1) and its decimal
  point (bit 0). \<open>digit_of_glyph\<close> reads a glyph back as a decimal digit through the first
  ten entries of the table.
\<close>

definition glyph :: "u8 \<Rightarrow> u8" where
  "glyph p = p AND 0b11111110"

definition dp_on :: "u8 \<Rightarrow> bool" where
  "dp_on p = (p AND 0b00000001 \<noteq> 0)"

definition digit_of_glyph :: "u8 \<Rightarrow> nat option" where
  "digit_of_glyph p = List.find (\<lambda>d. SEGMENT_PATTERNS ! d = glyph p) [0..<10]"

text \<open>
  The four decimal digits of a number, leftmost first; a digit is a leading zero when it
  and every digit before it are zero and it is not the rightmost.
\<close>

definition decimal_digits :: "nat \<Rightarrow> nat list" where
  "decimal_digits n = [n div 1000 mod 10, n div 100 mod 10, n div 10 mod 10, n mod 10]"

definition leading_zero :: "nat \<Rightarrow> nat \<Rightarrow> bool" where
  "leading_zero n i = (i < 3 \<and> list_all (\<lambda>d. d = 0) (take (Suc i) (decimal_digits n)))"

text \<open>The pattern \<open>setNumber\<close> stores in slot \<open>i\<close>, in closed form.\<close>

definition number_slot :: "bool \<Rightarrow> nat \<Rightarrow> int \<Rightarrow> nat \<Rightarrow> u8" where
  "number_slot lz n dp i =
     (let base = (if \<not> lz \<and> leading_zero n i
                  then SEGMENT_PATTERNS ! 10 else SEGMENT_PATTERNS ! (decimal_digits n ! i))
      in if dp = int i then base OR SEGMENT_PATTERNS ! 11 else base)"

definition clamp_value :: "u16 \<Rightarrow> nat" where
  "clamp_value v = (if unat v > 9999 then 9999 else unat v)"

definition clamp_dp :: "i8 \<Rightarrow> int" where
  "clamp_dp dp = (if sint dp < - 1 \<or> sint dp > 3 then - 1 else sint dp)"

text \<open>
  A tick is one call of \<open>multiplex\<close>, taken in an arbitrary blink state; \<open>run_ticks\<close> runs
  a sequence of them.
\<close>

definition tick :: "bool \<times> bool \<Rightarrow> SevenSegment \<Rightarrow> SevenSegment" where
  "tick b s = multiplex (s\<lparr>blinkEnabled := fst b, blinkStateOn := snd b\<rparr>)"

definition run_ticks :: "(bool \<times> bool) list \<Rightarrow> SevenSegment \<Rightarrow> SevenSegment" where
  "run_ticks bs s = foldl (\<lambda>t b. tick b t) s bs"

text \<open>
  The record of one critical section that stores the four patterns \<open>ps\<close>.
\<close>

definition atomic_write :: "u8 list \<Rightarrow> event list" where
  "atomic_write ps =
     InterruptsOff # map (\<lambda>i. StorePattern i (ps ! i)) [0..<NUM_DIGITS] @ [InterruptsOn]"

text \<open>
  \<open>written s ps\<close> is the state after the four stores of \<open>ps\<close>, \<open>committed s ps\<close> the state
  after the whole critical section.
\<close>

definition written :: "SevenSegment \<Rightarrow> u8 list \<Rightarrow> SevenSegment" where
  "written s ps =
     s\<lparr>displayPatterns := ps,
       events := events s @ map (\<lambda>i. StorePattern i (ps ! i)) [0..<NUM_DIGITS]\<rparr>"

definition committed :: "SevenSegment \<Rightarrow> u8 list \<Rightarrow> SevenSegment" where
  "committed s ps =
     s\<lparr>irq_enabled := True, displayPatterns := ps, events := events s @ atomic_write ps\<rparr>"

text \<open>
  The timer interrupt is served only while the global interrupt flag is set, so a tick
  can fall on a point of a call's record only if the flag is set there. \<open>tick_points\<close>
  walks the record of a call from the flag's value at entry and returns, for every such
  point, the slots the call has stored so far. The four slots a tick reads there belong
  to one update when the call has stored none of them (they are all as the call found
  them) or all of them. \<open>call_trace\<close> is what a call added to the record.
\<close>

fun tick_points :: "bool \<Rightarrow> nat list \<Rightarrow> event list \<Rightarrow> nat list list" where
  "tick_points irq w [] = (if irq then [w] else [])"
| "tick_points irq w (e # es) =
     (if irq then [w] else []) @
     (case e of
        InterruptsOff \<Rightarrow> tick_points False w es
      | InterruptsOn \<Rightarrow> tick_points True w es
      | StorePattern i p \<Rightarrow> tick_points irq (w @ [i]) es
      | _ \<Rightarrow> tick_points irq w es)"

definition one_update :: "nat list \<Rightarrow> bool" where
  "one_update w = (w = [] \<or> list_all (\<lambda>i. i \<in> set w) [0..<NUM_DIGITS])"

definition call_trace :: "SevenSegment \<Rightarrow> SevenSegment \<Rightarrow> event list" where
  "call_trace s s' = drop (length (events s)) (events s')"

definition untorn :: "SevenSegment \<Rightarrow> SevenSegment \<Rightarrow> bool" where
  "untorn s s' =
     (events s' = events s @ call_trace s s'
      \<and> list_all one_update (tick_points (irq_enabled s) [] (call_trace s s')))"

text \<open>
  \<open>tick_frames\<close> returns, for every point of a record at which a tick can fall, the
  DisplayState the tick would read there, starting from the display \<open>d\<close>.
\<close>

fun tick_frames :: "bool \<Rightarrow> u8 list \<Rightarrow> event list \<Rightarrow> u8 list list" where
  "tick_frames irq d [] = (if irq then [d] else [])"
| "tick_frames irq d (e # es) =
     (if irq then [d] else []) @
     (case e of
        InterruptsOff \<Rightarrow> tick_frames False d es
      | InterruptsOn \<Rightarrow> tick_frames True d es
      | StorePattern i p \<Rightarrow> tick_frames irq (d[i := p]) es
      | _ \<Rightarrow> tick_frames irq d es)"

subsection \<open>A concrete machine and object\<close>

text \<open>
  Program memory holding the pin tables of the example sketches: segment pins 2 to 9 at
  address 256, digit pins 10 to 13 at address 264.
\<close>

definition demo_flash :: "nat \<Rightarrow> u8" where
  "demo_flash a = (if 256 \<le> a \<and> a < 268 then of_nat (a - 254) else 0xFF)"

definition demo_hw :: avr_hw where
  "demo_hw = \<lparr> flash = demo_flash, TCCR1A = 0, TCCR1B = 0, TCNT1 = 0, OCR1A = 0, TIMSK1 = 0,
     irq_enabled = True, events = [] \<rparr>"

definition demo :: SevenSegment where
  "demo = SevenSegment_new demo_hw 256 264"

text \<open>A platform whose arithmetic is exact.\<close>

definition exact_env :: float_env where
  "exact_env = \<lparr> round_float = (\<lambda>x. x), round_double = (\<lambda>x. x), pow10 = (\<lambda>n. 10 ^ n),
      undef_uint16 = (\<lambda>x. 0), undef_int = (\<lambda>x. 0) \<rparr>"

section \<open>Properties\<close>

subsection \<open>The pattern table\<close>

lemma lt10_cases:
  "d < 10 \<Longrightarrow> d = 0 \<or> d = 1 \<or> d = 2 \<or> d = 3 \<or> d = 4 \<or> d = 5 \<or> d = 6 \<or> d = 7 \<or> d = 8 \<or> d = (9::nat)"
  by arith

lemma upt10: "[0..<10] = [0, 1, 2, 3, 4, 5, 6, 7, 8, 9::nat]"
  by (simp add: upt_rec)

lemma digit_glyph_plain: "d < 10 \<Longrightarrow> glyph (SEGMENT_PATTERNS ! d) = SEGMENT_PATTERNS ! d"
  by (drule lt10_cases) (auto simp: glyph_def SEGMENT_PATTERNS_def)

lemma digit_glyph_dp: "d < 10 \<Longrightarrow> glyph (SEGMENT_PATTERNS ! d OR SEGMENT_PATTERNS ! 11) = SEGMENT_PATTERNS ! d"
  by (drule lt10_cases) (auto simp: glyph_def SEGMENT_PATTERNS_def)

lemma find_digit: "d < 10 \<Longrightarrow> List.find (\<lambda>e. SEGMENT_PATTERNS ! e = SEGMENT_PATTERNS ! d) [0..<10] = Some d"
  unfolding upt10
  by (drule lt10_cases) (auto simp: SEGMENT_PATTERNS_def)

lemma digit_glyph_nonblank: "d < 10 \<Longrightarrow> SEGMENT_PATTERNS ! d \<noteq> SEGMENT_PATTERNS ! 10"
  by (drule lt10_cases) (auto simp: SEGMENT_PATTERNS_def)

lemma digit_dp_off: "d < 10 \<Longrightarrow> \<not> dp_on (SEGMENT_PATTERNS ! d)"
  by (drule lt10_cases) (auto simp: dp_on_def SEGMENT_PATTERNS_def)

lemma digit_dp_on: "d < 10 \<Longrightarrow> dp_on (SEGMENT_PATTERNS ! d OR SEGMENT_PATTERNS ! 11)"
  by (drule lt10_cases) (auto simp: dp_on_def SEGMENT_PATTERNS_def)

lemma blank_facts:
  "glyph (SEGMENT_PATTERNS ! 10) = SEGMENT_PATTERNS ! 10"
  "glyph (SEGMENT_PATTERNS ! 10 OR SEGMENT_PATTERNS ! 11) = SEGMENT_PATTERNS ! 10"
  "\<not> dp_on (SEGMENT_PATTERNS ! 10)"
  "dp_on (SEGMENT_PATTERNS ! 10 OR SEGMENT_PATTERNS ! 11)"
  by (simp_all add: glyph_def dp_on_def SEGMENT_PATTERNS_def)

lemma NUM_DIGITS_Suc: "NUM_DIGITS = Suc (Suc (Suc (Suc 0)))"
  by (simp add: NUM_DIGITS_def)

lemma upt_NUM_DIGITS: "[0..<NUM_DIGITS] = [0, Suc 0, 2, 3]"
  by (simp add: NUM_DIGITS_def upt_rec)

lemma replicate_NUM_DIGITS: "replicate NUM_DIGITS x = [x, x, x, x]"
  by (simp add: NUM_DIGITS_Suc)

lemma lt4_cases: "i < NUM_DIGITS \<Longrightarrow> i = 0 \<or> i = Suc 0 \<or> i = 2 \<or> i = 3"
  unfolding NUM_DIGITS_def by arith

lemma extract_digits:
  "extract_loop NUM_DIGITS v (replicate NUM_DIGITS 0) =
     [ucast (v div 10 div 10 div 10 mod 10), ucast (v div 10 div 10 mod 10),
      ucast (v div 10 mod 10), ucast (v mod 10)]"
  unfolding replicate_NUM_DIGITS unfolding NUM_DIGITS_Suc
  by simp

lemma unat_digit: "unat (ucast ((w::u16) mod 10) :: u8) = unat w mod 10"
proof -
  have "unat (w mod 10) = unat w mod 10" by (simp add: unat_mod)
  moreover have "unat w mod 10 < 256"
    by (rule less_trans[of _ 10]) simp_all
  ultimately show ?thesis
    by (simp add: unsigned_ucast_eq take_bit_nat_eq_self)
qed

lemma digit_eq0: "((ucast ((w::u16) mod 10) :: u8) = 0) = (unat w mod 10 = 0)"
  using unat_digit[of w] by (metis unat_eq_0)

lemma unat_div10: "unat ((w::u16) div 10) = unat w div 10"
  by (simp add: unat_div)

lemma len4: "length xs = NUM_DIGITS \<Longrightarrow> \<exists>a b c d. xs = [a, b, c, d]"
  unfolding NUM_DIGITS_Suc
  by (cases xs; simp; (cases "tl xs"; simp; (cases "tl (tl xs)"; simp; (cases "tl (tl (tl xs))"; simp))))

lemma written_unfold:
  "written s [p0, p1, p2, p3] =
     s\<lparr>displayPatterns := [p0, p1, p2, p3],
       events := events s @ [StorePattern 0 p0, StorePattern (Suc 0) p1, StorePattern 2 p2,
                             StorePattern 3 p3]\<rparr>"
  unfolding written_def upt_NUM_DIGITS
  by simp

lemma setNumber_step_pair:
  "setNumber_step ds dp (s, L) i =
     (store_pattern i
       ((if \<not> leadingZeros s \<and> ds ! i = 0 \<and> L \<and> i < NUM_DIGITS - 1
         then SEGMENT_PATTERNS ! 10 else SEGMENT_PATTERNS ! unat (ds ! i))
        OR (if int i = sint dp \<and> sint dp \<ge> 0 then SEGMENT_PATTERNS ! 11 else 0)) s,
      ds ! i = 0 \<and> L \<and> i \<noteq> NUM_DIGITS - 1)"
  by (auto simp add: setNumber_step_def Let_def)

lemma leadingZeros_store_pattern: "leadingZeros (store_pattern i p s) = leadingZeros s"
  by (simp add: store_pattern_def)

lemma store_four:
  assumes "length (displayPatterns s) = NUM_DIGITS"
  shows "store_pattern 3 p3 (store_pattern 2 p2 (store_pattern (Suc 0) p1 (store_pattern 0 p0 s)))
         = written s [p0, p1, p2, p3]"
proof -
  obtain a b c d where abcd: "displayPatterns s = [a, b, c, d]"
    using len4[OF assms] by blast
  show ?thesis
    unfolding written_unfold
    by (simp add: store_pattern_def abcd)
qed

lemma setNumber_loop:
  assumes "length (displayPatterns s) = NUM_DIGITS"
  shows "fst (foldl (setNumber_step [d0, d1, d2, d3] dp) (s, True) [0..<NUM_DIGITS]) =
    written s
      [(if \<not> leadingZeros s \<and> d0 = 0 then SEGMENT_PATTERNS ! 10
        else SEGMENT_PATTERNS ! unat d0)
         OR (if sint dp = 0 then SEGMENT_PATTERNS ! 11 else 0),
       (if \<not> leadingZeros s \<and> d0 = 0 \<and> d1 = 0 then SEGMENT_PATTERNS ! 10
        else SEGMENT_PATTERNS ! unat d1)
         OR (if sint dp = 1 then SEGMENT_PATTERNS ! 11 else 0),
       (if \<not> leadingZeros s \<and> d0 = 0 \<and> d1 = 0 \<and> d2 = 0 then SEGMENT_PATTERNS ! 10
        else SEGMENT_PATTERNS ! unat d2)
         OR (if sint dp = 2 then SEGMENT_PATTERNS ! 11 else 0),
       SEGMENT_PATTERNS ! unat d3
         OR (if sint dp = 3 then SEGMENT_PATTERNS ! 11 else 0)]"
proof -
  have "fst (foldl (setNumber_step [d0, d1, d2, d3] dp) (s, True) [0..<NUM_DIGITS]) =
    store_pattern 3
      (SEGMENT_PATTERNS ! unat d3 OR (if sint dp = 3 then SEGMENT_PATTERNS ! 11 else 0))
    (store_pattern 2
      ((if \<not> leadingZeros s \<and> d0 = 0 \<and> d1 = 0 \<and> d2 = 0 then SEGMENT_PATTERNS ! 10
        else SEGMENT_PATTERNS ! unat d2)
         OR (if sint dp = 2 then SEGMENT_PATTERNS ! 11 else 0))
    (store_pattern (Suc 0)
      ((if \<not> leadingZeros s \<and> d0 = 0 \<and> d1 = 0 then SEGMENT_PATTERNS ! 10
        else SEGMENT_PATTERNS ! unat d1)
         OR (if sint dp = 1 then SEGMENT_PATTERNS ! 11 else 0))
    (store_pattern 0
      ((if \<not> leadingZeros s \<and> d0 = 0 then SEGMENT_PATTERNS ! 10
        else SEGMENT_PATTERNS ! unat d0)
         OR (if sint dp = 0 then SEGMENT_PATTERNS ! 11 else 0)) s)))"
    unfolding upt_NUM_DIGITS
    by (simp add: setNumber_step_pair leadingZeros_store_pattern NUM_DIGITS_def)
  then show ?thesis
    by (simp only: store_four[OF assms])
qed

lemma unat_MAX_VALUE: "unat MAX_VALUE = 9999"
  by (simp add: MAX_VALUE_def)

lemma unat_clamped: "unat (if v > MAX_VALUE then MAX_VALUE else v) = clamp_value v"
  by (simp add: clamp_value_def word_less_nat_alt unat_MAX_VALUE)

lemma sint_clamped: "sint (if sint dp < - 1 \<or> sint dp > 3 then - 1 else dp) = clamp_dp dp"
  by (simp add: clamp_dp_def)

lemma number_slot_0:
  "number_slot lz n dp 0 =
     (if \<not> lz \<and> n div 1000 mod 10 = 0 then SEGMENT_PATTERNS ! 10
      else SEGMENT_PATTERNS ! (n div 1000 mod 10)) OR (if dp = 0 then SEGMENT_PATTERNS ! 11 else 0)"
  by (simp add: number_slot_def leading_zero_def decimal_digits_def Let_def)

lemma number_slot_1:
  "number_slot lz n dp (Suc 0) =
     (if \<not> lz \<and> n div 1000 mod 10 = 0 \<and> n div 100 mod 10 = 0 then SEGMENT_PATTERNS ! 10
      else SEGMENT_PATTERNS ! (n div 100 mod 10)) OR (if dp = 1 then SEGMENT_PATTERNS ! 11 else 0)"
  by (simp add: number_slot_def leading_zero_def decimal_digits_def Let_def)

lemma number_slot_2:
  "number_slot lz n dp 2 =
     (if \<not> lz \<and> n div 1000 mod 10 = 0 \<and> n div 100 mod 10 = 0 \<and> n div 10 mod 10 = 0
      then SEGMENT_PATTERNS ! 10
      else SEGMENT_PATTERNS ! (n div 10 mod 10)) OR (if dp = 2 then SEGMENT_PATTERNS ! 11 else 0)"
  by (simp add: number_slot_def leading_zero_def decimal_digits_def Let_def)

lemma number_slot_3:
  "number_slot lz n dp 3 =
     SEGMENT_PATTERNS ! (n mod 10) OR (if dp = 3 then SEGMENT_PATTERNS ! 11 else 0)"
  by (simp add: number_slot_def leading_zero_def decimal_digits_def Let_def)

lemma sei_written_cli: "sei (written (cli s) ps) = committed s ps"
  by (simp add: cli_def sei_def written_def committed_def atomic_write_def)

lemma committed_simps:
  "displayPatterns (committed s ps) = ps"
  "irq_enabled (committed s ps)"
  "leadingZeros (committed s ps) = leadingZeros s"
  "lastError (committed s ps) = lastError s"
  "events (committed s ps) = events s @ atomic_write ps"
  by (simp_all add: committed_def)

lemma div10_100: "(n::nat) div 10 div 10 = n div 100"
  by (simp add: div_mult2_eq[symmetric])

lemma div100_10: "(n::nat) div 100 div 10 = n div 1000"
  by (simp add: div_mult2_eq[symmetric])

lemma setNumber_closed_form:
  assumes "wf s"
  shows "setNumber s v dp =
    committed s
      (map (number_slot (leadingZeros s) (clamp_value v) (clamp_dp dp)) [0..<NUM_DIGITS])"
proof -
  define w where "w = (if v > MAX_VALUE then MAX_VALUE else v)"
  have len: "length (displayPatterns (cli s)) = NUM_DIGITS"
    using assms by (simp add: wf_def cli_def)
  have n: "unat w = clamp_value v"
    unfolding w_def by (rule unat_clamped)
  have lz: "leadingZeros (cli s) = leadingZeros s"
    by (simp add: cli_def)
  have "setNumber s v dp =
     sei (fst (foldl (setNumber_step
        [ucast (w div 10 div 10 div 10 mod 10), ucast (w div 10 div 10 mod 10),
         ucast (w div 10 mod 10), ucast (w mod 10)]
        (if sint dp < - 1 \<or> sint dp > 3 then - 1 else dp)) (cli s, True) [0..<NUM_DIGITS]))"
    unfolding setNumber_def Let_def extract_digits w_def ..
  also have "\<dots> = committed s
      (map (number_slot (leadingZeros s) (clamp_value v) (clamp_dp dp)) [0..<NUM_DIGITS])"
    unfolding setNumber_loop[OF len]
    unfolding sint_clamped upt_NUM_DIGITS lz
    unfolding list.map number_slot_0 number_slot_1 number_slot_2 number_slot_3
    unfolding Let_def digit_eq0 unat_digit
    unfolding unat_div10 n div10_100 div100_10 sei_written_cli
    by (rule refl)
  finally show ?thesis .
qed

lemma setNumber_slot:
  assumes "wf s" "i < NUM_DIGITS"
  shows "displayPatterns (setNumber s v dp) ! i = number_slot (leadingZeros s) (clamp_value v) (clamp_dp dp) i"
  using assms(2) by (simp add: setNumber_closed_form[OF assms(1)] committed_simps)

lemma setNumber_length:
  assumes "wf s"
  shows "length (displayPatterns (setNumber s v dp)) = NUM_DIGITS"
  by (simp add: setNumber_closed_form[OF assms] committed_simps)

lemma decimal_digit_lt10: "i < NUM_DIGITS \<Longrightarrow> decimal_digits n ! i < 10"
  by (drule lt4_cases) (auto simp: decimal_digits_def)

lemma number_slot_dp:
  assumes "i < NUM_DIGITS"
  shows "dp_on (number_slot lz n dp i) = (dp = int i)"
  using decimal_digit_lt10[OF assms, of n]
  by (simp add: number_slot_def Let_def blank_facts digit_dp_off digit_dp_on)

lemma number_slot_glyph:
  assumes "i < NUM_DIGITS"
  shows "glyph (number_slot lz n dp i) =
     (if \<not> lz \<and> leading_zero n i then SEGMENT_PATTERNS ! 10
      else SEGMENT_PATTERNS ! (decimal_digits n ! i))"
  using decimal_digit_lt10[OF assms, of n]
  by (simp add: number_slot_def Let_def blank_facts digit_glyph_plain digit_glyph_dp)

lemma digit_of_glyph_digit:
  "glyph p = SEGMENT_PATTERNS ! d \<Longrightarrow> d < 10 \<Longrightarrow> digit_of_glyph p = Some d"
  by (simp add: digit_of_glyph_def find_digit)

lemma clamp_value_id: "v \<le> MAX_VALUE \<Longrightarrow> clamp_value v = unat v"
  by (simp add: clamp_value_def word_le_nat_alt unat_MAX_VALUE)

lemma clamp_dp_id: "- 1 \<le> sint dp \<Longrightarrow> sint dp \<le> 3 \<Longrightarrow> clamp_dp dp = sint dp"
  by (simp add: clamp_dp_def)

lemma wf_demo: "wf demo"
  by (simp add: wf_def demo_def SevenSegment_new_def)

lemma wf_setLeadingZeros: "wf (setLeadingZeros s b) = wf s"
  by (simp add: wf_def setLeadingZeros_def)

lemma leadingZeros_demo: "leadingZeros demo"
  by (simp add: demo_def SevenSegment_new_def)

lemma leading_zero_42:
  "leading_zero 42 0" "leading_zero 42 (Suc 0)" "\<not> leading_zero 42 2" "\<not> leading_zero 42 3"
  by (simp_all add: leading_zero_def decimal_digits_def)

subsection \<open>Rendering a number\<close>

text \<open>
  Claim C1, amended. For every value in 0..9999 and every dpPosition in -1..3,
  \<open>setNumber\<close> leaves exactly 4 patterns; the decimal-point bit is set on exactly the slot
  dpPosition (on none for -1); and the glyph of each slot reads back as the corresponding
  decimal digit of the value, leftmost digit in slot 0, except that when the
  \<open>_leadingZeros\<close> flag is false the slots of the leading zeros hold the blank glyph.
\<close>

theorem setNumber_digits_and_dp:
  assumes "wf s" and "v \<le> MAX_VALUE" and "- 1 \<le> sint dp" and "sint dp \<le> 3"
  shows "length (displayPatterns (setNumber s v dp)) = 4
    \<and> (\<forall>i<4. dp_on (displayPatterns (setNumber s v dp) ! i) = (sint dp = int i))
    \<and> (\<forall>i<4. if \<not> leadingZeros s \<and> leading_zero (unat v) i
               then glyph (displayPatterns (setNumber s v dp) ! i) = SEGMENT_PATTERNS ! 10
               else digit_of_glyph (displayPatterns (setNumber s v dp) ! i)
                      = Some (decimal_digits (unat v) ! i))"
proof (intro conjI allI impI)
  show "length (displayPatterns (setNumber s v dp)) = 4"
    using setNumber_length[OF assms(1), of v dp] by (simp add: NUM_DIGITS_def)
next
  fix i :: nat assume "i < 4"
  then have i: "i < NUM_DIGITS" by (simp add: NUM_DIGITS_def)
  show "dp_on (displayPatterns (setNumber s v dp) ! i) = (sint dp = int i)"
    by (simp add: setNumber_slot[OF assms(1) i] number_slot_dp[OF i] clamp_dp_id[OF assms(3,4)])
next
  fix i :: nat assume "i < 4"
  then have i: "i < NUM_DIGITS" by (simp add: NUM_DIGITS_def)
  have g: "glyph (displayPatterns (setNumber s v dp) ! i) =
     (if \<not> leadingZeros s \<and> leading_zero (unat v) i then SEGMENT_PATTERNS ! 10
      else SEGMENT_PATTERNS ! (decimal_digits (unat v) ! i))"
    by (simp add: setNumber_slot[OF assms(1) i] number_slot_glyph[OF i] clamp_value_id[OF assms(2)])
  show "if \<not> leadingZeros s \<and> leading_zero (unat v) i
        then glyph (displayPatterns (setNumber s v dp) ! i) = SEGMENT_PATTERNS ! 10
        else digit_of_glyph (displayPatterns (setNumber s v dp) ! i)
               = Some (decimal_digits (unat v) ! i)"
  proof (cases "\<not> leadingZeros s \<and> leading_zero (unat v) i")
    case True
    then show ?thesis using g by simp
  next
    case False
    then have "glyph (displayPatterns (setNumber s v dp) ! i) = SEGMENT_PATTERNS ! (decimal_digits (unat v) ! i)"
      using g by auto
    then have "digit_of_glyph (displayPatterns (setNumber s v dp) ! i) = Some (decimal_digits (unat v) ! i)"
      by (rule digit_of_glyph_digit) (rule decimal_digit_lt10[OF i])
    then show ?thesis using False by auto
  qed
qed

theorem setNumber_digits_and_dp_witness:
  "wf (setLeadingZeros demo False) \<and> (42::u16) \<le> MAX_VALUE \<and> - 1 \<le> sint (2::i8) \<and> sint (2::i8) \<le> 3
   \<and> length (displayPatterns (setNumber (setLeadingZeros demo False) 42 2)) = 4
   \<and> \<not> dp_on (displayPatterns (setNumber (setLeadingZeros demo False) 42 2) ! 0)
   \<and> dp_on (displayPatterns (setNumber (setLeadingZeros demo False) 42 2) ! 2)
   \<and> glyph (displayPatterns (setNumber (setLeadingZeros demo False) 42 2) ! 0) = SEGMENT_PATTERNS ! 10
   \<and> glyph (displayPatterns (setNumber (setLeadingZeros demo False) 42 2) ! 1) = SEGMENT_PATTERNS ! 10
   \<and> digit_of_glyph (displayPatterns (setNumber (setLeadingZeros demo False) 42 2) ! 2) = Some 4
   \<and> digit_of_glyph (displayPatterns (setNumber (setLeadingZeros demo False) 42 2) ! 3) = Some 2"
proof -
  have h1: "wf (setLeadingZeros demo False)"
    by (simp add: wf_setLeadingZeros wf_demo)
  have h2: "(42::u16) \<le> MAX_VALUE"
    by (simp add: MAX_VALUE_def)
  have h3: "- 1 \<le> sint (2::i8)"
    by simp
  have h4: "sint (2::i8) \<le> 3"
    by simp
  have lz: "\<not> leadingZeros (setLeadingZeros demo False)"
    by (simp add: setLeadingZeros_def)
  note T = setNumber_digits_and_dp[OF h1 h2 h3 h4]
  from T have len: "length (displayPatterns (setNumber (setLeadingZeros demo False) 42 2)) = 4"
    by blast
  from T have dp: "\<And>i. i < 4 \<Longrightarrow>
      dp_on (displayPatterns (setNumber (setLeadingZeros demo False) 42 2) ! i) = (sint (2::i8) = int i)"
    by blast
  from T have dg: "\<And>i. i < 4 \<Longrightarrow>
      (if \<not> leadingZeros (setLeadingZeros demo False) \<and> leading_zero (unat (42::u16)) i
       then glyph (displayPatterns (setNumber (setLeadingZeros demo False) 42 2) ! i) = SEGMENT_PATTERNS ! 10
       else digit_of_glyph (displayPatterns (setNumber (setLeadingZeros demo False) 42 2) ! i)
              = Some (decimal_digits (unat (42::u16)) ! i))"
    by blast
  have d0: "\<not> dp_on (displayPatterns (setNumber (setLeadingZeros demo False) 42 2) ! 0)"
    using dp[of 0] by simp
  have d2: "dp_on (displayPatterns (setNumber (setLeadingZeros demo False) 42 2) ! 2)"
    using dp[of 2] by simp
  have g0: "glyph (displayPatterns (setNumber (setLeadingZeros demo False) 42 2) ! 0) = SEGMENT_PATTERNS ! 10"
    using dg[of 0] lz by (simp add: leading_zero_42)
  have g1: "glyph (displayPatterns (setNumber (setLeadingZeros demo False) 42 2) ! 1) = SEGMENT_PATTERNS ! 10"
    using dg[of 1] lz by (simp add: leading_zero_42)
  have g2: "digit_of_glyph (displayPatterns (setNumber (setLeadingZeros demo False) 42 2) ! 2) = Some 4"
    using dg[of 2] lz by (simp add: leading_zero_42 decimal_digits_def)
  have g3: "digit_of_glyph (displayPatterns (setNumber (setLeadingZeros demo False) 42 2) ! 3) = Some 2"
    using dg[of 3] lz by (simp add: leading_zero_42 decimal_digits_def)
  show ?thesis
    by (intro conjI h1 h2 h3 h4 len d0 d2 g0 g1 g2 g3)
qed

lemma demo_blanked_5:
  "displayPatterns (setNumber (setLeadingZeros demo False) 5 (- 1)) = [0, 0, 0, 0b10110110]"
proof -
  have w: "wf (setLeadingZeros demo False)"
    by (simp add: wf_setLeadingZeros wf_demo)
  have lz: "leadingZeros (setLeadingZeros demo False) = False"
    by (simp add: setLeadingZeros_def)
  show ?thesis
    unfolding setNumber_closed_form[OF w] lz committed_simps
    by (simp add: upt_NUM_DIGITS number_slot_0 number_slot_1 number_slot_2 number_slot_3
        clamp_value_def clamp_dp_def SEGMENT_PATTERNS_def)
qed

text \<open>
  Claim C1 as stated fails once \<open>setLeadingZeros(false)\<close> was called: \<open>setNumber(5)\<close> then
  stores three blank patterns, which read back as no digit, where the digits are 0, 0, 0.
\<close>

theorem setNumber_decode_counterexample:
  "\<not> (map digit_of_glyph (displayPatterns (setNumber (setLeadingZeros demo False) 5 (- 1)))
        = map Some (decimal_digits (unat (5::u16))))"
  by (simp add: demo_blanked_5 digit_of_glyph_def glyph_def upt10 SEGMENT_PATTERNS_def decimal_digits_def)

subsection \<open>Leading zeros\<close>

lemma leading_zero_7:
  "leading_zero 7 0"
  by (simp add: leading_zero_def decimal_digits_def)

lemma clamp_value_7: "clamp_value 7 = 7"
  by (simp add: clamp_value_def)

lemma demo_zeros_5:
  "displayPatterns (setNumber demo 5 (- 1)) = [0b11111100, 0b11111100, 0b11111100, 0b10110110]"
proof -
  have lz: "leadingZeros demo = True"
    using leadingZeros_demo by simp
  show ?thesis
    unfolding setNumber_closed_form[OF wf_demo] lz committed_simps
    by (simp add: upt_NUM_DIGITS number_slot_0 number_slot_1 number_slot_2 number_slot_3
        clamp_value_def clamp_dp_def SEGMENT_PATTERNS_def)
qed

text \<open>
  Claim C5, amended. \<open>setNumber\<close> blanks a slot exactly when the \<open>_leadingZeros\<close> flag is
  false (after \<open>setLeadingZeros(false)\<close>) and the slot holds a leading zero: a zero digit
  before the first nonzero digit that is not the rightmost digit. In every other case,
  so always when the flag is true (the constructor's value, or after
  \<open>setLeadingZeros(true)\<close>), the slot shows the glyph of its digit, a zero as '0'. Values
  above 9999 are rendered as 9999.
\<close>

theorem setNumber_leading_zero_blanking:
  assumes "wf s" and "i < 4"
  shows "glyph (displayPatterns (setNumber s v dp) ! i) =
           (if \<not> leadingZeros s \<and> leading_zero (clamp_value v) i
            then SEGMENT_PATTERNS ! 10
            else SEGMENT_PATTERNS ! (decimal_digits (clamp_value v) ! i))
         \<and> SEGMENT_PATTERNS ! (decimal_digits (clamp_value v) ! i) \<noteq> SEGMENT_PATTERNS ! 10"
proof -
  have i: "i < NUM_DIGITS"
    using assms(2) by (simp add: NUM_DIGITS_def)
  show ?thesis
    by (simp add: setNumber_slot[OF assms(1) i] number_slot_glyph[OF i]
        digit_glyph_nonblank[OF decimal_digit_lt10[OF i]])
qed

theorem setNumber_leading_zero_blanking_witness:
  "wf (setLeadingZeros demo False) \<and> wf demo \<and> (0::nat) < 4
   \<and> glyph (displayPatterns (setNumber (setLeadingZeros demo False) 7 (- 1)) ! 0) = 0b00000000
   \<and> glyph (displayPatterns (setNumber demo 7 (- 1)) ! 0) = 0b11111100"
proof -
  have h1: "wf (setLeadingZeros demo False)"
    by (simp add: wf_setLeadingZeros wf_demo)
  have h2: "(0::nat) < 4"
    by simp
  have lz: "\<not> leadingZeros (setLeadingZeros demo False)"
    by (simp add: setLeadingZeros_def)
  have a: "glyph (displayPatterns (setNumber (setLeadingZeros demo False) 7 (- 1)) ! 0) = 0b00000000"
    using setNumber_leading_zero_blanking[OF h1 h2, of 7 "- 1"] lz
    by (simp add: clamp_value_7 leading_zero_7 SEGMENT_PATTERNS_def)
  have b: "glyph (displayPatterns (setNumber demo 7 (- 1)) ! 0) = 0b11111100"
    using setNumber_leading_zero_blanking[OF wf_demo h2, of 7 "- 1"] leadingZeros_demo
    by (simp add: clamp_value_7 decimal_digits_def SEGMENT_PATTERNS_def)
  show ?thesis
    by (intro conjI h1 wf_demo h2 a b)
qed

text \<open>
  Claim C5 as stated fails on a new object, on which no call of \<open>setLeadingZeros\<close> has
  enabled anything: \<open>setNumber(5)\<close> shows '0' in slot 0, not a blank.
\<close>

theorem setNumber_default_shows_zeros_counterexample:
  "\<not> (glyph (displayPatterns (setNumber demo 5 (- 1)) ! 0) = SEGMENT_PATTERNS ! 10)"
  by (simp add: demo_zeros_5 glyph_def SEGMENT_PATTERNS_def)

subsection \<open>A decimal-point position out of range\<close>

lemma setNumber_clamp_dp:
  "sint dp < - 1 \<or> 3 < sint dp \<Longrightarrow> setNumber s v dp = setNumber s v (- 1)"
  by (simp add: setNumber_def)

lemma setNumber_clamp_value:
  "setNumber s (if v > 9999 then 9999 else v) dp = setNumber s v dp"
  by (simp add: setNumber_def MAX_VALUE_def)

lemma setHundredths_default_dp:
  "sint dp < - 1 \<or> 3 < sint dp \<Longrightarrow> setHundredths s v dp = setNumber s v 2"
  unfolding setHundredths_def Let_def
  by (simp add: setNumber_clamp_value)

text \<open>
  Claim C9. For every value and every dpPosition outside -1..3, \<open>setNumber\<close> does what it
  does for dpPosition -1 and sets the decimal-point bit on no slot, while \<open>setHundredths\<close>
  does what \<open>setNumber\<close> does for position 2 and so sets the bit on slot 2 only.
\<close>

theorem setNumber_dp_out_of_range:
  assumes "sint dp < - 1 \<or> 3 < sint dp" and "wf s" and "i < 4"
  shows "setNumber s v dp = setNumber s v (- 1)
     \<and> \<not> dp_on (displayPatterns (setNumber s v dp) ! i)
     \<and> setHundredths s v dp = setNumber s v 2
     \<and> dp_on (displayPatterns (setHundredths s v dp) ! i) = (i = 2)"
proof -
  have i: "i < NUM_DIGITS"
    using assms(3) by (simp add: NUM_DIGITS_def)
  have c1: "clamp_dp dp = - 1"
    using assms(1) by (auto simp: clamp_dp_def)
  have c2: "clamp_dp 2 = 2"
    by (simp add: clamp_dp_def)
  have a: "\<not> dp_on (displayPatterns (setNumber s v dp) ! i)"
    by (simp add: setNumber_slot[OF assms(2) i] number_slot_dp[OF i] c1)
  have b: "dp_on (displayPatterns (setNumber s v 2) ! i) = (i = 2)"
    by (auto simp add: setNumber_slot[OF assms(2) i] number_slot_dp[OF i] c2)
  show ?thesis
    using a b by (simp add: setNumber_clamp_dp[OF assms(1)] setHundredths_default_dp[OF assms(1)])
qed

theorem setNumber_dp_out_of_range_witness:
  "(sint (7::i8) < - 1 \<or> 3 < sint (7::i8)) \<and> wf demo \<and> (2::nat) < 4
     \<and> setNumber demo 1234 7 = setNumber demo 1234 (- 1)
     \<and> \<not> dp_on (displayPatterns (setNumber demo 1234 7) ! 2)
     \<and> setHundredths demo 1234 7 = setNumber demo 1234 2
     \<and> dp_on (displayPatterns (setHundredths demo 1234 7) ! 2)"
proof -
  have h1: "sint (7::i8) < - 1 \<or> 3 < sint (7::i8)"
    by simp
  have h3: "(2::nat) < 4"
    by simp
  note T = setNumber_dp_out_of_range[OF h1 wf_demo h3, of 1234]
  have t4: "dp_on (displayPatterns (setHundredths demo 1234 7) ! 2)"
    using T[THEN conjunct2, THEN conjunct2, THEN conjunct2] by simp
  show ?thesis
    by (intro conjI h1 wf_demo h3 T[THEN conjunct1] T[THEN conjunct2, THEN conjunct1]
        T[THEN conjunct2, THEN conjunct2, THEN conjunct1] t4)
qed

subsection \<open>The multiplex cycle\<close>

lemma currentDigit_digitalWrite: "currentDigit (digitalWrite p l s) = currentDigit s"
  by (simp add: digitalWrite_def)

lemma currentDigit_drive_segments:
  "currentDigit (foldl (drive_segment pattern) s xs) = currentDigit s"
  by (induction xs arbitrary: s) (simp_all add: drive_segment_def Let_def currentDigit_digitalWrite)

lemma multiplex_currentDigit:
  "currentDigit (multiplex s) = of_nat ((unat (currentDigit s) + 1) mod NUM_DIGITS)"
  by (simp add: multiplex_def Let_def currentDigit_digitalWrite currentDigit_drive_segments)

lemma unat_cursor: "unat (of_nat (n mod NUM_DIGITS) :: u8) = n mod 4"
proof -
  have "n mod 4 < 256"
    by (rule less_trans[of _ 4]) simp_all
  then show ?thesis
    by (simp add: NUM_DIGITS_def unat_of_nat)
qed

lemma multiplex_cursor: "unat (currentDigit (multiplex s)) = (unat (currentDigit s) + 1) mod 4"
  by (simp add: multiplex_currentDigit unat_cursor)

lemma tick_cursor: "unat (currentDigit (tick b s)) = (unat (currentDigit s) + 1) mod 4"
  by (simp add: tick_def multiplex_cursor)

lemma run_ticks_snoc: "run_ticks (bs @ [b]) s = tick b (run_ticks bs s)"
  by (simp add: run_ticks_def)

lemma run_ticks_cursor:
  "bs \<noteq> [] \<or> unat (currentDigit s) < 4 \<Longrightarrow>
   unat (currentDigit (run_ticks bs s)) = (unat (currentDigit s) + length bs) mod 4"
proof (induction bs rule: rev_induct)
  case Nil
  then show ?case by (simp add: run_ticks_def)
next
  case (snoc b bs)
  show ?case
  proof (cases "bs = []")
    case True
    then show ?thesis
      by (simp add: run_ticks_snoc tick_cursor run_ticks_def)
  next
    case False
    then have "unat (currentDigit (run_ticks bs s)) = (unat (currentDigit s) + length bs) mod 4"
      using snoc.IH by simp
    then show ?thesis
      by (simp add: run_ticks_snoc tick_cursor mod_Suc_eq)
  qed
qed

lemma multiplex_blink_off:
  "blinkEnabled s \<Longrightarrow> \<not> blinkStateOn s \<Longrightarrow>
   events (multiplex s) =
     events s @ [DigitalWrite (flash s (digitPins s + unat (currentDigit s))) False]"
  by (simp add: multiplex_def Let_def digitalWrite_def pgm_read_byte_def)

text \<open>
  Claim C7. One tick moves the scan cursor from \<open>c\<close> to \<open>(c + 1) mod 4\<close>, for every
  starting value of the cursor and every blink state; in the dark phase of a blink the
  tick still moves it, and its only pin write switches the previous digit off. So after
  a sequence of \<open>n\<close> ticks the cursor is \<open>(c + n) mod 4\<close>, which lies in 0..3 (after at
  least one tick, or when it started there).
\<close>

theorem multiplex_advances_cursor:
  assumes "bs \<noteq> [] \<or> unat (currentDigit s) < 4"
  shows "unat (currentDigit (multiplex s)) = (unat (currentDigit s) + 1) mod 4
     \<and> unat (currentDigit (multiplex (s\<lparr>blinkEnabled := True, blinkStateOn := False\<rparr>)))
          = (unat (currentDigit s) + 1) mod 4
     \<and> events (multiplex (s\<lparr>blinkEnabled := True, blinkStateOn := False\<rparr>)) =
          events s @ [DigitalWrite (flash s (digitPins s + unat (currentDigit s))) False]
     \<and> unat (currentDigit (run_ticks bs s)) = (unat (currentDigit s) + length bs) mod 4
     \<and> unat (currentDigit (run_ticks bs s)) < 4"
proof -
  have r: "unat (currentDigit (run_ticks bs s)) = (unat (currentDigit s) + length bs) mod 4"
    by (rule run_ticks_cursor[OF assms])
  have b: "events (multiplex (s\<lparr>blinkEnabled := True, blinkStateOn := False\<rparr>)) =
          events s @ [DigitalWrite (flash s (digitPins s + unat (currentDigit s))) False]"
    using multiplex_blink_off[of "s\<lparr>blinkEnabled := True, blinkStateOn := False\<rparr>"] by simp
  show ?thesis
    using r b by (simp add: multiplex_cursor)
qed

theorem multiplex_advances_cursor_witness:
  "[(True, False), (False, True), (True, True)] \<noteq> []
   \<and> unat (currentDigit (multiplex demo)) = 1
   \<and> unat (currentDigit (run_ticks [(True, False), (False, True), (True, True)] demo)) = 3"
proof -
  have h: "[(True, False), (False, True), (True, True)] \<noteq> [] \<or> unat (currentDigit demo) < 4"
    by simp
  have c: "unat (currentDigit demo) = 0"
    by (simp add: demo_def SevenSegment_new_def)
  note T = multiplex_advances_cursor[OF h]
  have a: "unat (currentDigit (multiplex demo)) = 1"
    using T[THEN conjunct1] c by simp
  have b: "unat (currentDigit (run_ticks [(True, False), (False, True), (True, True)] demo)) = 3"
    using T[THEN conjunct2, THEN conjunct2, THEN conjunct2, THEN conjunct1] c by simp
  show ?thesis
    using a b by simp
qed

subsection \<open>setSegments with a null pointer\<close>

text \<open>
  Claim C8. \<open>setSegments(nullptr)\<close> returns the object and the machine as they were: no
  slot is written, the last error is not touched, and the function returns no value.
\<close>

theorem setSegments_null_is_noop: "setSegments s None = s"
  by (simp add: setSegments_def)

subsection \<open>testWiring before initialisation\<close>

lemma demo_not_active: "\<not> isrActive demo"
  by (simp add: demo_def SevenSegment_new_def)

text \<open>
  Claim C10. While the ISR-active flag is false, \<open>testWiring\<close> returns at once: the
  object, the timer registers, the interrupt flag and the record of pin writes and delays
  are all unchanged.
\<close>

theorem testWiring_uninitialized_is_noop:
  assumes "\<not> isrActive s"
  shows "testWiring s delayMs = s"
  using assms by (simp add: testWiring_def)

theorem testWiring_uninitialized_is_noop_witness:
  "\<not> isrActive demo \<and> testWiring demo 500 = demo"
  using demo_not_active testWiring_uninitialized_is_noop[OF demo_not_active, of 500] by simp

subsection \<open>setText\<close>

lemma write_all_slots:
  assumes "length (displayPatterns s) = NUM_DIGITS"
  shows "foldl (\<lambda>t i. store_pattern i (f i) t) s [0..<NUM_DIGITS]
         = written s [f 0, f 1, f 2, f 3]"
  unfolding upt_NUM_DIGITS
  using store_four[OF assms, of "f 3" "f 2" "f 1" "f 0"] by (simp add: numeral_eq_Suc)

lemma setText_closed_form:
  assumes "wf s" and "strlen text mod 256 \<le> 4"
  shows "setText s (Some text) =
     (OK, committed s (map (\<lambda>i. getPattern
               (strncpy [CHR '' '', CHR '' '', CHR '' '', CHR '' '', CHR 0x00] text
                  (strlen text mod 256) ! i)) [0, 1, 2, 3]))"
proof -
  have len: "length (displayPatterns (cli s)) = NUM_DIGITS"
    using assms(1) by (simp add: wf_def cli_def)
  have u: "unat (of_nat (strlen text) :: u8) = strlen text mod 256"
    by (simp add: unat_of_nat)
  show ?thesis
    unfolding setText_def Let_def option.case u write_all_slots[OF len] sei_written_cli
    using assms(2) by (simp add: NUM_DIGITS_def)
qed

lemma setText_too_long:
  assumes "4 < strlen text mod 256"
  shows "setText s (Some text) = (INVALID_ARGUMENT, s)"
proof -
  have u: "unat (of_nat (strlen text) :: u8) = strlen text mod 256"
    by (simp add: unat_of_nat)
  show ?thesis
    unfolding setText_def Let_def option.case u
    using assms by (simp add: NUM_DIGITS_def)
qed

lemma setText_null: "setText s None = (NULL_POINTER, s)"
  by (simp add: setText_def)

lemma short_cases:
  "length (xs::'a list) \<le> 4 \<Longrightarrow>
   xs = [] \<or> (\<exists>a. xs = [a]) \<or> (\<exists>a b. xs = [a, b]) \<or> (\<exists>a b c. xs = [a, b, c])
     \<or> (\<exists>a b c d. xs = [a, b, c, d])"
  by (cases xs; simp; (cases "tl xs"; simp; (cases "tl (tl xs)"; simp; (cases "tl (tl (tl xs))"; simp))))

lemma setText_short:
  assumes "wf s" and "length str \<le> 4" and "CHR 0x00 \<notin> set str"
  shows "setText s (Some str) =
     (OK, committed s (map getPattern (str @ replicate (4 - length str) (CHR '' ''))))"
proof -
  have tw: "takeWhile (\<lambda>c. c \<noteq> CHR 0x00) str = str"
    using assms(3) by (auto simp: takeWhile_eq_all_conv)
  have sl: "strlen str = length str"
    by (simp add: strlen_def tw)
  have l: "strlen str mod 256 \<le> 4"
    using assms(2) by (simp add: sl)
  have m: "length str mod 256 = length str"
    using assms(2) by simp
  show ?thesis
    unfolding setText_closed_form[OF assms(1) l] sl m strncpy_def tw Let_def
    using short_cases[OF assms(2)] by (auto simp: eval_nat_numeral)
qed

lemma setText_HI:
  assumes "wf s"
  shows "setText s (Some ''HI'') =
     (OK, committed s [getPattern (CHR ''H''), getPattern (CHR ''I''),
                       getPattern (CHR '' ''), getPattern (CHR '' '')])"
  using setText_short[OF assms, of "''HI''"] by (simp add: eval_nat_numeral)

lemma setText_long:
  assumes "4 < length str" and "length str < 256" and "CHR 0x00 \<notin> set str"
  shows "setText s (Some str) = (INVALID_ARGUMENT, s)"
proof -
  have tw: "takeWhile (\<lambda>c. c \<noteq> CHR 0x00) str = str"
    using assms(3) by (auto simp: takeWhile_eq_all_conv)
  have sl: "strlen str = length str"
    by (simp add: strlen_def tw)
  show ?thesis
    by (rule setText_too_long) (use assms in \<open>simp add: sl\<close>)
qed

lemma lastError_write_slots:
  "lastError (foldl (\<lambda>t i. store_pattern i (f i) t) u xs) = lastError u"
  by (induction xs arbitrary: u) (simp_all add: store_pattern_def)

lemma setText_lastError: "lastError (snd (setText s t)) = lastError s"
proof (cases t)
  case None
  then show ?thesis
    by (simp add: setText_null)
next
  case (Some str)
  show ?thesis
    unfolding Some setText_def Let_def option.case
    by (simp add: lastError_write_slots sei_def cli_def)
qed

lemma wf_setNumber: "wf s \<Longrightarrow> wf (setNumber s v dp)"
  by (simp add: wf_def setNumber_length[unfolded wf_def])

lemma strlen_As: "strlen (replicate 256 (CHR ''A'')) = 256"
  by (simp add: strlen_def)

lemma demo_1234:
  "displayPatterns (setNumber demo 1234 (- 1)) = [0b01100000, 0b11011010, 0b11110010, 0b01100110]"
proof -
  have lz: "leadingZeros demo = True"
    using leadingZeros_demo by simp
  show ?thesis
    unfolding setNumber_closed_form[OF wf_demo] lz committed_simps
    by (simp add: upt_NUM_DIGITS number_slot_0 number_slot_1 number_slot_2 number_slot_3
        clamp_value_def clamp_dp_def SEGMENT_PATTERNS_def)
qed

text \<open>
  Claim C4 fails on the code for a string of 256 characters: \<open>strlen\<close> returns 256, the
  \<open>uint8_t\<close> that receives it holds 0, the length check passes, and \<open>setText\<close> returns
  \<open>OK\<close> after overwriting the display (here showing 1234) with four blanks.
\<close>

theorem setText_256_chars_accepted:
  "displayPatterns (setNumber demo 1234 (- 1)) = [0b01100000, 0b11011010, 0b11110010, 0b01100110]
   \<and> length (replicate 256 (CHR ''A'')) = 256
   \<and> fst (setText (setNumber demo 1234 (- 1)) (Some (replicate 256 (CHR ''A'')))) = OK
   \<and> displayPatterns (snd (setText (setNumber demo 1234 (- 1)) (Some (replicate 256 (CHR ''A'')))))
       = [0, 0, 0, 0]"
proof -
  have w: "wf (setNumber demo 1234 (- 1))"
    by (rule wf_setNumber[OF wf_demo])
  have l: "strlen (replicate 256 (CHR ''A'')) mod 256 \<le> 4"
    by (simp add: strlen_As)
  show ?thesis
    unfolding setText_closed_form[OF w l]
    by (simp add: demo_1234 strlen_As strncpy_def getPattern_def SEGMENT_PATTERNS_def
        committed_simps)
qed

subsection \<open>The last error\<close>

lemma strlen_TOOLONG: "strlen ''TOOLONG'' = 7"
  by (simp add: strlen_def)

lemma begin_sets_lastError:
  "lastError (snd (SevenSegment_begin s)) = fst (SevenSegment_begin s)"
  by (simp add: SevenSegment_begin_def Let_def)

lemma setFloat_sets_lastError:
  "lastError (snd (setFloat env s v)) = fst (setFloat env s v)"
  by (cases v) (simp_all add: setFloat_invalid_def Let_def)

text \<open>
  Claim C6 fails on the code for \<open>setText\<close>, which returns its error code without storing
  it: after \<open>setText("TOOLONG")\<close> on a new object, \<open>getLastError\<close> still returns \<open>OK\<close>.
  \<open>begin\<close> and \<open>setFloat\<close> do store the code they return (the two lemmas above).
\<close>

theorem setText_does_not_set_lastError:
  "getLastError demo = OK
   \<and> fst (setText demo (Some ''TOOLONG'')) = INVALID_ARGUMENT
   \<and> getLastError (snd (setText demo (Some ''TOOLONG''))) = OK"
proof -
  have l: "4 < strlen ''TOOLONG'' mod 256"
    by (simp add: strlen_TOOLONG)
  have d: "lastError demo = OK"
    by (simp add: demo_def SevenSegment_new_def)
  show ?thesis
    by (simp add: setText_too_long[OF l] getLastError_def d)
qed

subsection \<open>Negative floats\<close>

lemma c_round_125: "c_round 125 = 125"
  by (simp add: c_round_def floor_eq_iff)

lemma to_uint16_125: "to_uint16 env 125 = 125"
  by (simp add: to_uint16_def truncate_def)

lemma minus_glyph: "getPattern (CHR ''-'') = 0b00000010"
  by (simp add: getPattern_def SEGMENT_PATTERNS_def)

lemma setText_minus_999:
  assumes "wf s"
  shows "displayPatterns (snd (setText s (Some ''-999''))) = map getPattern ''-999''"
proof -
  have l: "strlen ''-999'' mod 256 \<le> 4"
    by (simp add: strlen_def)
  show ?thesis
    unfolding setText_closed_form[OF assms l]
    by (simp add: strlen_def strncpy_def committed_simps)
qed

lemma setFloat_negative_patterns:
  assumes "x < 0"
  shows "displayPatterns (snd (setFloat env s (Finite x))) =
     (if x \<le> - 100 then displayPatterns (snd (setText s (Some ''-999'')))
      else if - 10 < x
      then (displayPatterns (setNumber s (to_uint16 env (c_round (round_float env (\<bar>x\<bar> * 100)))) 1))
             [0 := getPattern (CHR ''-'')]
      else (displayPatterns (setNumber s (to_uint16 env (c_round (round_float env (\<bar>x\<bar> * 10)))) 2))
             [0 := getPattern (CHR ''-'')])"
  using assms by (simp add: Let_def cli_def sei_def store_pattern_def)

lemma clamp_dp_1: "clamp_dp 1 = 1"
  by (simp add: clamp_dp_def)

lemma clamp_dp_2: "clamp_dp 2 = 2"
  by (simp add: clamp_dp_def)

lemma setNumber_125:
  assumes "wf s"
  shows "(displayPatterns (setNumber s 125 2))[0 := 0b00000010]
         = [0b00000010, 0b01100000, 0b11011011, 0b10110110]"
  unfolding setNumber_closed_form[OF assms] clamp_dp_2 committed_simps
  by (simp add: upt_NUM_DIGITS number_slot_0 number_slot_1 number_slot_2 number_slot_3
        clamp_value_def SEGMENT_PATTERNS_def)

text \<open>
  Claim C3. For every negative finite value \<open>x\<close>, on every platform, \<open>setFloat\<close> returns
  \<open>OK\<close> and leaves: the glyphs of "-999" when the magnitude is at least 100; otherwise what
  \<open>setNumber\<close> renders for the magnitude scaled by 100 and rounded, with the decimal point
  on slot 1 (2 decimal digits), when the magnitude is below 10, and for the magnitude
  scaled by 10 and rounded, with the decimal point on slot 2 (1 decimal digit), when it
  is at or above 10, in both cases with slot 0 replaced by the minus-sign glyph. For
  -12.5, on every platform whose \<open>float\<close> format holds 125 exactly, the slots are the
  minus sign, '1', '2' with the decimal point, and '5'.
\<close>

theorem setFloat_negative:
  assumes "wf s" and "x < 0"
  shows "fst (setFloat env s (Finite x)) = OK
    \<and> displayPatterns (snd (setFloat env s (Finite x))) =
        (if 100 \<le> \<bar>x\<bar> then map getPattern ''-999''
         else if \<bar>x\<bar> < 10
         then (displayPatterns
                 (setNumber s (to_uint16 env (c_round (round_float env (\<bar>x\<bar> * 100)))) 1))
                [0 := getPattern (CHR ''-'')]
         else (displayPatterns
                 (setNumber s (to_uint16 env (c_round (round_float env (\<bar>x\<bar> * 10)))) 2))
                [0 := getPattern (CHR ''-'')])
    \<and> (if 100 \<le> \<bar>x\<bar> then True
        else displayPatterns (snd (setFloat env s (Finite x))) ! 0 = 0b00000010
           \<and> dp_on (displayPatterns (snd (setFloat env s (Finite x))) ! 1) = (\<bar>x\<bar> < 10)
           \<and> dp_on (displayPatterns (snd (setFloat env s (Finite x))) ! 2) = (10 \<le> \<bar>x\<bar>)
           \<and> \<not> dp_on (displayPatterns (snd (setFloat env s (Finite x))) ! 3))
    \<and> (round_float env 125 = 125 \<longrightarrow>
          displayPatterns (snd (setFloat env s (Finite (- 25 / 2))))
            = [0b00000010, 0b01100000, 0b11011011, 0b10110110])"
proof (intro conjI)
  show "fst (setFloat env s (Finite x)) = OK"
    using assms(2) by (simp add: Let_def)
next
  show "displayPatterns (snd (setFloat env s (Finite x))) =
        (if 100 \<le> \<bar>x\<bar> then map getPattern ''-999''
         else if \<bar>x\<bar> < 10
         then (displayPatterns
                 (setNumber s (to_uint16 env (c_round (round_float env (\<bar>x\<bar> * 100)))) 1))
                [0 := getPattern (CHR ''-'')]
         else (displayPatterns
                 (setNumber s (to_uint16 env (c_round (round_float env (\<bar>x\<bar> * 10)))) 2))
                [0 := getPattern (CHR ''-'')])"
    unfolding setFloat_negative_patterns[OF assms(2)] setText_minus_999[OF assms(1)]
    using assms(2) by auto
next
  have i1: "Suc 0 < NUM_DIGITS" and i2: "2 < NUM_DIGITS" and i3: "3 < NUM_DIGITS"
    by (simp_all add: NUM_DIGITS_def)
  have len: "\<And>v dp. length (displayPatterns (setNumber s v dp)) = 4"
    using setNumber_length[OF assms(1)] by (simp add: NUM_DIGITS_def)
  show "if 100 \<le> \<bar>x\<bar> then True
        else displayPatterns (snd (setFloat env s (Finite x))) ! 0 = 0b00000010
           \<and> dp_on (displayPatterns (snd (setFloat env s (Finite x))) ! 1) = (\<bar>x\<bar> < 10)
           \<and> dp_on (displayPatterns (snd (setFloat env s (Finite x))) ! 2) = (10 \<le> \<bar>x\<bar>)
           \<and> \<not> dp_on (displayPatterns (snd (setFloat env s (Finite x))) ! 3)"
    unfolding setFloat_negative_patterns[OF assms(2)]
    using assms(2)
    by (auto simp: len minus_glyph setNumber_slot[OF assms(1) i1] setNumber_slot[OF assms(1) i2]
        setNumber_slot[OF assms(1) i3] number_slot_dp[OF i1] number_slot_dp[OF i2]
        number_slot_dp[OF i3] clamp_dp_1 clamp_dp_2)
next
  show "round_float env 125 = 125 \<longrightarrow>
          displayPatterns (snd (setFloat env s (Finite (- 25 / 2))))
            = [0b00000010, 0b01100000, 0b11011011, 0b10110110]"
  proof
    assume r: "round_float env 125 = 125"
    have n: "(- 25 / 2 :: rat) < 0"
      by simp
    show "displayPatterns (snd (setFloat env s (Finite (- 25 / 2))))
            = [0b00000010, 0b01100000, 0b11011011, 0b10110110]"
      unfolding setFloat_negative_patterns[OF n]
      by (simp add: r c_round_125 to_uint16_125 minus_glyph setNumber_125[OF assms(1)])
  qed
qed

theorem setFloat_negative_witness:
  "wf demo \<and> (- 567 / 100 :: rat) < 0 \<and> round_float exact_env 125 = 125
   \<and> fst (setFloat exact_env demo (Finite (- 567 / 100))) = OK
   \<and> displayPatterns (snd (setFloat exact_env demo (Finite (- 567 / 100)))) ! 0 = 0b00000010
   \<and> dp_on (displayPatterns (snd (setFloat exact_env demo (Finite (- 567 / 100)))) ! 1)
   \<and> displayPatterns (snd (setFloat exact_env demo (Finite (- 25 / 2))))
        = [0b00000010, 0b01100000, 0b11011011, 0b10110110]"
proof -
  have h: "(- 567 / 100 :: rat) < 0"
    by simp
  have r: "round_float exact_env 125 = 125"
    by (simp add: exact_env_def)
  note T = setFloat_negative[OF wf_demo h, of exact_env]
  have a: "fst (setFloat exact_env demo (Finite (- 567 / 100))) = OK"
    by (rule T[THEN conjunct1])
  have b: "displayPatterns (snd (setFloat exact_env demo (Finite (- 567 / 100)))) ! 0 = 0b00000010
     \<and> dp_on (displayPatterns (snd (setFloat exact_env demo (Finite (- 567 / 100)))) ! 1)"
    using T[THEN conjunct2, THEN conjunct2, THEN conjunct1] by simp
  have c: "displayPatterns (snd (setFloat exact_env demo (Finite (- 25 / 2))))
        = [0b00000010, 0b01100000, 0b11011011, 0b10110110]"
    using T[THEN conjunct2, THEN conjunct2, THEN conjunct2] r by blast
  show ?thesis
    by (intro conjI wf_demo h r a b[THEN conjunct1] b[THEN conjunct2] c)
qed

subsection \<open>Renderer calls and ticks\<close>

lemma atomic_write_unfold:
  "atomic_write ps =
     [InterruptsOff, StorePattern 0 (ps ! 0), StorePattern (Suc 0) (ps ! Suc 0),
      StorePattern 2 (ps ! 2), StorePattern 3 (ps ! 3), InterruptsOn]"
  unfolding atomic_write_def upt_NUM_DIGITS
  by simp

lemma tick_points_atomic_write:
  "tick_points b [] (atomic_write ps) = (if b then [[]] else []) @ [[0, Suc 0, 2, 3]]"
  by (simp add: atomic_write_unfold)

lemma tick_points_atomic_write_patch:
  "tick_points b [] (atomic_write ps @ [InterruptsOff, StorePattern 0 m, InterruptsOn]) =
     (if b then [[]] else []) @ [[0, Suc 0, 2, 3], [0, Suc 0, 2, 3, 0]]"
  by (simp add: atomic_write_unfold)

lemma one_update_cases:
  "one_update []" "one_update [0, Suc 0, 2, 3]" "one_update [0, Suc 0, 2, 3, 0]"
  by (simp_all add: one_update_def upt_NUM_DIGITS)

lemma unmasked_store_is_torn: "\<not> list_all one_update (tick_points True [] [StorePattern 0 p])"
  by (simp add: one_update_def upt_NUM_DIGITS)

lemma untornI:
  assumes "events s' = events s @ t"
    and "list_all one_update (tick_points (irq_enabled s) [] t)"
  shows "untorn s s'"
  using assms by (simp add: untorn_def call_trace_def)

lemma untorn_refl: "untorn s s"
  by (rule untornI[of _ _ "[]"]) (simp_all add: one_update_cases)

lemma untorn_committed: "untorn s (committed s ps)"
  by (rule untornI[of _ _ "atomic_write ps"])
     (simp_all add: committed_simps tick_points_atomic_write one_update_cases)

lemma untorn_lastError: "untorn s (s'\<lparr>lastError := e\<rparr>) = untorn s s'"
  by (simp add: untorn_def call_trace_def)

lemma untorn_setNumber: "wf s \<Longrightarrow> untorn s (setNumber s v dp)"
  by (simp add: setNumber_closed_form untorn_committed)

lemma untorn_setHundredths: "wf s \<Longrightarrow> untorn s (setHundredths s v dp)"
  by (simp add: setHundredths_def Let_def untorn_setNumber)

lemma untorn_setText:
  assumes "wf s"
  shows "untorn s (snd (setText s t))"
proof (cases t)
  case None
  then show ?thesis
    by (simp add: setText_null untorn_refl)
next
  case (Some str)
  show ?thesis
  proof (cases "strlen str mod 256 \<le> 4")
    case True
    show ?thesis
      unfolding Some setText_closed_form[OF assms True]
      by (simp add: untorn_committed)
  next
    case False
    then have "4 < strlen str mod 256"
      by simp
    then show ?thesis
      unfolding Some by (simp add: setText_too_long untorn_refl)
  qed
qed

lemma setSegments_closed_form:
  assumes "wf s"
  shows "setSegments s (Some p) = committed s [p 0, p 1, p 2, p 3]"
proof -
  have len: "length (displayPatterns (cli s)) = NUM_DIGITS"
    using assms by (simp add: wf_def cli_def)
  show ?thesis
    unfolding setSegments_def Let_def option.case write_all_slots[OF len] sei_written_cli
    by (rule refl)
qed

lemma untorn_setSegments:
  assumes "wf s"
  shows "untorn s (setSegments s p)"
proof (cases p)
  case None
  then show ?thesis
    by (simp add: setSegments_def untorn_refl)
next
  case (Some f)
  show ?thesis
    unfolding Some setSegments_closed_form[OF assms]
    by (rule untorn_committed)
qed

lemma untorn_patched:
  "untorn s (sei (store_pattern 0 m (cli (committed s ps))))"
  by (rule untornI[of _ _ "atomic_write ps @ [InterruptsOff, StorePattern 0 m, InterruptsOn]"])
     (simp_all add: committed_simps cli_def sei_def store_pattern_def
        tick_points_atomic_write_patch one_update_cases)

lemma untorn_setFloat_invalid: "wf s \<Longrightarrow> untorn s (snd (setFloat_invalid s))"
  by (simp add: setFloat_invalid_def Let_def untorn_lastError untorn_setText)

lemma untorn_setFloat:
  assumes "wf s"
  shows "untorn s (snd (setFloat env s x))"
proof (cases x)
  case NaN
  then show ?thesis
    by (simp add: untorn_setFloat_invalid[OF assms])
next
  case PosInf
  then show ?thesis
    by (simp add: untorn_setFloat_invalid[OF assms])
next
  case NegInf
  then show ?thesis
    by (simp add: untorn_setFloat_invalid[OF assms])
next
  case (Finite q)
  show ?thesis
    unfolding Finite
    by (simp add: Let_def untorn_lastError untorn_setText[OF assms] untorn_committed
        setNumber_closed_form[OF assms] untorn_patched)
qed

lemma frame_digitalWrite:
  "displayPatterns (digitalWrite p l s) = displayPatterns s"
  "irq_enabled (digitalWrite p l s) = irq_enabled s"
  by (simp_all add: digitalWrite_def)

lemma frame_drive_segments:
  "displayPatterns (foldl (drive_segment pattern) s xs) = displayPatterns s
   \<and> irq_enabled (foldl (drive_segment pattern) s xs) = irq_enabled s"
  by (induction xs arbitrary: s) (simp_all add: drive_segment_def Let_def frame_digitalWrite)

lemma frame_multiplex:
  "displayPatterns (multiplex s) = displayPatterns s \<and> irq_enabled (multiplex s) = irq_enabled s"
  by (simp add: multiplex_def Let_def frame_digitalWrite frame_drive_segments)

text \<open>
  Claim C2. A tick falls on a point of a renderer call only where the interrupt flag is
  set. At every such point of a call of \<open>setNumber\<close>, \<open>setHundredths\<close>, \<open>setText\<close>,
  \<open>setSegments\<close> or \<open>setFloat\<close>, before, inside and after it, the call has stored either
  none of the four slots or all four: every store stands between \<open>cli()\<close> and \<open>sei()\<close>, and
  the first critical section of a call stores all four slots. So the DisplayState a tick
  reads is as a whole what the call found or as a whole written by the call. The
  interrupt handler itself stores no pattern and leaves the flag as it was, so the ticks
  do not change what the call does.
\<close>

theorem renderer_updates_untorn:
  assumes "wf s"
  shows "untorn s (setNumber s v dp)
     \<and> untorn s (setHundredths s v dp)
     \<and> untorn s (snd (setText s t))
     \<and> untorn s (setSegments s p)
     \<and> untorn s (snd (setFloat env s x))
     \<and> displayPatterns (TIMER1_COMPA_vect s) = displayPatterns s
     \<and> irq_enabled (TIMER1_COMPA_vect s) = irq_enabled s"
  by (simp add: untorn_setNumber[OF assms] untorn_setHundredths[OF assms] untorn_setText[OF assms]
      untorn_setSegments[OF assms] untorn_setFloat[OF assms] TIMER1_COMPA_vect_def
      frame_multiplex)

theorem renderer_updates_untorn_witness:
  "wf demo
   \<and> untorn demo (setNumber demo 1234 2)
   \<and> untorn demo (snd (setText demo (Some ''HELP'')))
   \<and> untorn demo (snd (setFloat exact_env demo (Finite (- 25 / 2))))"
proof -
  note T = renderer_updates_untorn[OF wf_demo, where v = 1234 and dp = 2
      and t = "Some ''HELP''" and env = exact_env and x = "Finite (- 25 / 2)"]
  show ?thesis
    by (intro conjI wf_demo T[THEN conjunct1] T[THEN conjunct2, THEN conjunct2, THEN conjunct1]
        T[THEN conjunct2, THEN conjunct2, THEN conjunct2, THEN conjunct2, THEN conjunct1])
qed

text \<open>
  What a tick can read, as values: during \<open>setNumber\<close> the old display or the new one;
  during \<open>setFloat\<close> of a negative value above -100 also the display \<open>setNumber\<close> left,
  all four slots new, before the sign replaces slot 0.
\<close>

lemma tick_frames_atomic_write:
  assumes "length d = NUM_DIGITS" and "length ps = NUM_DIGITS"
  shows "tick_frames True d (atomic_write ps) = [d, ps]"
proof -
  obtain a b c e where d: "d = [a, b, c, e]"
    using len4[OF assms(1)] by blast
  obtain p0 p1 p2 p3 where ps: "ps = [p0, p1, p2, p3]"
    using len4[OF assms(2)] by blast
  show ?thesis
    by (simp add: atomic_write_unfold d ps)
qed

lemma tick_frames_atomic_write_patch:
  assumes "length d = NUM_DIGITS" and "length ps = NUM_DIGITS"
  shows "tick_frames True d (atomic_write ps @ [InterruptsOff, StorePattern 0 m, InterruptsOn])
         = [d, ps, ps[0 := m]]"
proof -
  obtain a b c e where d: "d = [a, b, c, e]"
    using len4[OF assms(1)] by blast
  obtain p0 p1 p2 p3 where ps: "ps = [p0, p1, p2, p3]"
    using len4[OF assms(2)] by blast
  show ?thesis
    by (simp add: atomic_write_unfold d ps)
qed

lemma setNumber_tick_frames:
  assumes "wf s"
  shows "tick_frames True (displayPatterns s) (call_trace s (setNumber s v dp))
         = [displayPatterns s, displayPatterns (setNumber s v dp)]"
proof -
  have l1: "length (displayPatterns s) = NUM_DIGITS"
    using assms by (simp add: wf_def)
  show ?thesis
    unfolding setNumber_closed_form[OF assms]
    by (simp add: call_trace_def committed_simps tick_frames_atomic_write[OF l1])
qed

lemma setFloat_negative_tick_frames:
  assumes "wf s" and "x < 0" and "- 100 < x"
  shows "tick_frames True (displayPatterns s) (call_trace s (snd (setFloat env s (Finite x))))
         = [displayPatterns s,
            displayPatterns
              (setNumber s
                 (if x > - 10
                  then to_uint16 env (c_round (round_float env (\<bar>x\<bar> * 100)))
                  else to_uint16 env (c_round (round_float env (\<bar>x\<bar> * 10))))
                 (if x > - 10 then 1 else 2)),
            displayPatterns (snd (setFloat env s (Finite x)))]"
proof -
  have l1: "length (displayPatterns s) = NUM_DIGITS"
    using assms(1) by (simp add: wf_def)
  define n where "n = (if x > - 10
                     then to_uint16 env (c_round (round_float env (\<bar>x\<bar> * 100)))
                     else to_uint16 env (c_round (round_float env (\<bar>x\<bar> * 10))))"
  define dp :: i8 where "dp = (if x > - 10 then 1 else 2)"
  define ps where
    "ps = map (number_slot (leadingZeros s) (clamp_value n) (clamp_dp dp)) [0..<NUM_DIGITS]"
  have l2: "length ps = NUM_DIGITS"
    by (simp add: ps_def)
  have sn: "setNumber s n dp = committed s ps"
    unfolding ps_def by (rule setNumber_closed_form[OF assms(1)])
  have sf: "snd (setFloat env s (Finite x)) =
     (sei (store_pattern 0 (getPattern (CHR ''-'')) (cli (committed s ps))))\<lparr>lastError := OK\<rparr>"
    using assms(2,3) by (simp add: Let_def sn[unfolded n_def dp_def])
  have "tick_frames True (displayPatterns s) (call_trace s (snd (setFloat env s (Finite x))))
         = [displayPatterns s, displayPatterns (setNumber s n dp),
            displayPatterns (snd (setFloat env s (Finite x)))]"
    unfolding sf sn
    by (simp add: call_trace_def committed_simps cli_def sei_def store_pattern_def
        tick_frames_atomic_write_patch[OF l1 l2])
  then show ?thesis
    unfolding n_def dp_def .
qed

end
